theory Spec2Isabelle
  imports Main "HOL-Library.Word" "HOL-Library.AList"
begin

section \<open>Command-line options of the BBR server\<close>

text \<open>
  A shallow embedding of \<^verbatim>\<open>pkg/bbr/server/options.go\<close> and of the logging options
  it embeds (\<^verbatim>\<open>pkg/common/observability/logging\<close>). Methods with a
  pointer receiver take the options and return them (state passing); a Go \<^verbatim>\<open>error\<close>
  is an \<open>error option\<close> (\<open>None\<close> is \<^verbatim>\<open>nil\<close>); a run-time panic is the left
  summand of the result.
\<close>

subsection \<open>Integers, errors and formatting\<close>

text \<open>
  Go's \<^verbatim>\<open>int\<close> on a 64-bit platform; \<open>sint\<close> reads its value. \<^verbatim>\<open>zapcore.Level\<close>
  is an \<^verbatim>\<open>int8\<close>.
\<close>

type_synonym go_int = "64 word"
type_synonym go_int8 = "8 word"

text \<open>
  \<^verbatim>\<open>ErrInvalidLogVerbosity\<close> is the package's sentinel error (declared beside the
  options); \<open>Errorf\<close> carries the message that \<^verbatim>\<open>fmt.Errorf\<close> has formatted.
\<close>

datatype error = ErrInvalidLogVerbosity | Errorf string

datatype panic = NilPointerDereference

text \<open>The verb \<^verbatim>\<open>%d\<close>: decimal digits, with a minus sign below zero.\<close>

fun digit :: "nat \<Rightarrow> char" where
  "digit n = ''0123456789'' ! n"

function decimal :: "nat \<Rightarrow> string" where
  "decimal n = (if n < 10 then [digit n] else decimal (n div 10) @ [digit (n mod 10)])"
  by pat_completeness auto
termination
  by (relation "measure id") auto

declare decimal.simps [simp del]

definition fmt_d :: "go_int \<Rightarrow> string" where
  "fmt_d i = (if sint i < 0 then CHR ''-'' # decimal (nat (- sint i)) else decimal (nat (sint i)))"

text \<open>
  The verb \<^verbatim>\<open>%q\<close> on a string that needs no escaping (the three flag names are
  such strings): the string between double quotes.
\<close>

definition fmt_q :: "string \<Rightarrow> string" where
  "fmt_q s = CHR 0x22 # s @ [CHR 0x22]"

subsection \<open>The flag set\<close>

text \<open>
  Of a \<^verbatim>\<open>pflag.Flag\<close> the code reads and writes \<^verbatim>\<open>Changed\<close> only; \<open>Value\<close> is
  the flag's current value as text. A \<^verbatim>\<open>pflag.FlagSet\<close> is the map from flag names to
  flags that \<^verbatim>\<open>Lookup\<close> consults. The options reach their flag set through the
  pointer \<^verbatim>\<open>fs\<close>: the record holds the flag set that the pointer leads to (\<open>None\<close> for
  the nil pointer), and a write through the pointer is an update of that field.
\<close>

record Flag =
  Changed :: bool
  Value :: string

type_synonym FlagSet = "string \<rightharpoonup> Flag"

definition ZapLogLevelFlagName :: string where
  "ZapLogLevelFlagName = ''zap-log-level''"

definition Lookup :: "FlagSet \<Rightarrow> string \<Rightarrow> Flag option" where
  "Lookup f name = f name"

subsection \<open>Logging options\<close>

text \<open>
  Of \<^verbatim>\<open>zap.Options\<close> the code sets \<^verbatim>\<open>Development\<close> and \<^verbatim>\<open>Level\<close>; \<open>Level\<close> is
  \<open>None\<close> while the interface value is nil and \<open>Some l\<close> for an atomic level at \<open>l\<close>.
\<close>

record zap_Options =
  Development :: bool
  Level :: "go_int8 option"

record logging_Options =
  LogVerbosity :: go_int
  ZapOptions :: zap_Options
  fs :: "FlagSet option"

text \<open>
  \<^verbatim>\<open>NewOptions\<close> of the logging package. The constant \<^verbatim>\<open>DEFAULT\<close> is declared in
  another file of the package, so it is a parameter here.
\<close>

definition logging_NewOptions :: "go_int \<Rightarrow> logging_Options" where
  "logging_NewOptions DEFAULT =
     \<lparr>LogVerbosity = DEFAULT,
      ZapOptions = \<lparr>Development = True, Level = None\<rparr>,
      fs = None\<rparr>"

text \<open>
  \<^verbatim>\<open>Complete\<close>: \<^verbatim>\<open>opts.fs.Lookup\<close> on a nil flag set dereferences the nil pointer.
  \<^verbatim>\<open>-1 * opts.LogVerbosity\<close> is a product of \<^verbatim>\<open>int\<close>s, and \<^verbatim>\<open>int8(lvl)\<close> keeps its
  low eight bits.
\<close>

definition logging_Complete :: "logging_Options \<Rightarrow> panic + (logging_Options \<times> error option)" where
  "logging_Complete opts =
     (case fs opts of
        None \<Rightarrow> Inl NilPointerDereference
      | Some f \<Rightarrow>
          (case Lookup f ZapLogLevelFlagName of
             Some zapLogLevelFlag \<Rightarrow>
               if \<not> Changed zapLogLevelFlag then
                 let lvl = -1 * LogVerbosity opts;
                     opts1 = opts\<lparr>ZapOptions := (ZapOptions opts)\<lparr>Level := Some (ucast lvl :: go_int8)\<rparr>\<rparr>;
                     opts2 = opts1\<lparr>fs := Some (f(ZapLogLevelFlagName \<mapsto> zapLogLevelFlag\<lparr>Changed := True\<rparr>))\<rparr>
                 in Inr (opts2, None)
               else Inr (opts, None)
           | None \<Rightarrow> Inr (opts, None)))"

definition logging_Validate :: "logging_Options \<Rightarrow> logging_Options \<times> error option" where
  "logging_Validate opts =
     (if sint (LogVerbosity opts) < 0 then (opts, Some ErrInvalidLogVerbosity)
      else (opts, None))"

subsection \<open>Plugin specifications\<close>

text \<open>
  Modelled from the spec: the record of one plugin declaration and the parse errors
  (\<^verbatim>\<open>pkg/bbr/config\<close> is not among the sources). The parameters of a plugin are a
  JSON document; \<open>'j\<close> is the type of decoded documents.
\<close>

record 'j PluginSpec =
  Type :: string
  Name :: string
  Parameters :: "'j option"

datatype PluginSpecParseError =
  MissingType string | MissingName string | InvalidJSONParameters string

text \<open>
  Modelled from the spec: the split at the first \<open>:\<close> (part of the parser of
  \<^verbatim>\<open>pkg/bbr/config\<close>), giving the text before it and the text after it when there is
  a \<open>:\<close>.
\<close>

fun cut_colon :: "string \<Rightarrow> (string \<times> string) option" where
  "cut_colon [] = None"
| "cut_colon (c # cs) =
     (if c = CHR '':'' then Some ([], cs)
      else (case cut_colon cs of None \<Rightarrow> None | Some (a, b) \<Rightarrow> Some (c # a, b)))"

text \<open>
  Modelled from the spec: the parser of one \<^verbatim>\<open>--plugin\<close> occurrence
  (\<^verbatim>\<open>pkg/bbr/config\<close> is not among the sources). It splits on the first two \<open>:\<close>
  at most; an empty or absent first segment is a missing type, an empty or absent
  second segment a missing name; the remainder, when present, goes to the JSON
  decoder \<open>decode\<close> as it is. Each error keeps the raw input.
\<close>

definition ParsePluginSpec :: "(string \<Rightarrow> 'j option) \<Rightarrow> string \<Rightarrow> PluginSpecParseError + 'j PluginSpec" where
  "ParsePluginSpec decode raw =
     (case cut_colon raw of
        None \<Rightarrow> if raw = [] then Inl (MissingType raw) else Inl (MissingName raw)
      | Some (t, rest) \<Rightarrow>
          if t = [] then Inl (MissingType raw)
          else (case cut_colon rest of
                  None \<Rightarrow>
                    if rest = [] then Inl (MissingName raw)
                    else Inr \<lparr>Type = t, Name = rest, Parameters = None\<rparr>
                | Some (n, js) \<Rightarrow>
                    if n = [] then Inl (MissingName raw)
                    else (case decode js of
                            None \<Rightarrow> Inl (InvalidJSONParameters raw)
                          | Some v \<Rightarrow> Inr \<lparr>Type = t, Name = n, Parameters = Some v\<rparr>)))"

text \<open>
  Modelled from the spec: \<^verbatim>\<open>Set\<close> of the repeatable flag value (the collection of
  \<^verbatim>\<open>pkg/bbr/config\<close> is not among the sources). It returns the sequence and the
  error.
\<close>

definition Set :: "(string \<Rightarrow> 'j option) \<Rightarrow> 'j PluginSpec list \<Rightarrow> string
    \<Rightarrow> 'j PluginSpec list \<times> PluginSpecParseError option" where
  "Set decode specs raw =
     (case ParsePluginSpec decode raw of
        Inl e \<Rightarrow> (specs, Some e)
      | Inr p \<Rightarrow> (specs @ [p], None))"

text \<open>
  Modelled from the spec: successive calls of \<^verbatim>\<open>Set\<close>, one for each occurrence of the
  flag; the first error aborts flag processing.
\<close>

fun SetAll :: "(string \<Rightarrow> 'j option) \<Rightarrow> 'j PluginSpec list \<Rightarrow> string list
    \<Rightarrow> 'j PluginSpec list \<times> PluginSpecParseError option" where
  "SetAll decode specs [] = (specs, None)"
| "SetAll decode specs (raw # raws) =
     (case Set decode specs raw of
        (specs', None) \<Rightarrow> SetAll decode specs' raws
      | (specs', Some e) \<Rightarrow> (specs', Some e))"

subsection \<open>Server options\<close>

definition DefaultGrpcPort :: go_int where
  "DefaultGrpcPort = 9004"

definition DefaultGrpcHealthPort :: go_int where
  "DefaultGrpcHealthPort = 9005"

record 'j server_Options =
  GRPCPort :: go_int
  Streaming :: bool
  Options :: logging_Options
  MetricsPort :: go_int
  GRPCHealthPort :: go_int
  EnablePprof :: bool
  SecureServing :: bool
  MetricsEndpointAuth :: bool
  PluginSpecs :: "'j PluginSpec list"

text \<open>Fields that the composite literal leaves out have their zero value.\<close>

definition server_NewOptions :: "go_int \<Rightarrow> 'j server_Options" where
  "server_NewOptions DEFAULT =
     \<lparr>GRPCPort = DefaultGrpcPort,
      Streaming = False,
      Options = logging_NewOptions DEFAULT,
      MetricsPort = 9090,
      GRPCHealthPort = DefaultGrpcHealthPort,
      EnablePprof = True,
      SecureServing = True,
      MetricsEndpointAuth = True,
      PluginSpecs = []\<rparr>"

definition server_Complete :: "'j server_Options \<Rightarrow> panic + ('j server_Options \<times> error option)" where
  "server_Complete opts =
     (case logging_Complete (Options opts) of
        Inl p \<Rightarrow> Inl p
      | Inr (lopts, err) \<Rightarrow> Inr (opts\<lparr>Options := lopts\<rparr>, err))"

text \<open>The loop over the three named ports: the first port out of range ends it.\<close>

fun check_ranges :: "(string \<times> go_int) list \<Rightarrow> error option" where
  "check_ranges [] = None"
| "check_ranges ((name, port) # pcs) =
     (if sint port < 1 \<or> sint port > 65535 then
        Some (Errorf (''invalid value '' @ fmt_d port @ '' for flag '' @ fmt_q name
                      @ '': must be between 1 and 65535''))
      else check_ranges pcs)"

text \<open>
  The map literal \<^verbatim>\<open>map[int]string{...}\<close> stores its three entries in turn, a later
  entry replacing an earlier one with the same key; \<^verbatim>\<open>len\<close> counts the keys.
\<close>

definition port_map :: "'j server_Options \<Rightarrow> (go_int \<times> string) list" where
  "port_map opts =
     AList.update (MetricsPort opts) ''metrics-port''
       (AList.update (GRPCHealthPort opts) ''grpc-health-port''
          (AList.update (GRPCPort opts) ''grpc-port'' []))"

definition server_Validate :: "'j server_Options \<Rightarrow> 'j server_Options \<times> error option" where
  "server_Validate opts =
     (case check_ranges [(''grpc-port'', GRPCPort opts),
                         (''grpc-health-port'', GRPCHealthPort opts),
                         (''metrics-port'', MetricsPort opts)] of
        Some err \<Rightarrow> (opts, Some err)
      | None \<Rightarrow>
          if length (port_map opts) < 3 then
            (opts, Some (Errorf (''port conflict: grpc-port ('' @ fmt_d (GRPCPort opts)
                                 @ ''), grpc-health-port ('' @ fmt_d (GRPCHealthPort opts)
                                 @ ''), and metrics-port ('' @ fmt_d (MetricsPort opts)
                                 @ '') must all be different'')))
          else
            (case logging_Validate (Options opts) of
               (lopts, Some err) \<Rightarrow> (opts\<lparr>Options := lopts\<rparr>, Some err)
             | (lopts, None) \<Rightarrow> (opts\<lparr>Options := lopts\<rparr>, None)))"

subsection \<open>Example inputs\<close>

text \<open>
  The flag set after \<^verbatim>\<open>-v=3\<close>, and after \<^verbatim>\<open>-v=5 --zap-log-level=info\<close>, with
  the options that flag parsing leaves (for the backend, \<^verbatim>\<open>info\<close> is level 0).
\<close>

definition flags_v3 :: FlagSet where
  "flags_v3 = [''v'' \<mapsto> \<lparr>Changed = True, Value = ''3''\<rparr>,
               ''zap-log-level'' \<mapsto> \<lparr>Changed = False, Value = []\<rparr>]"

definition opts_v3 :: logging_Options where
  "opts_v3 = \<lparr>LogVerbosity = 3, ZapOptions = \<lparr>Development = True, Level = None\<rparr>,
              fs = Some flags_v3\<rparr>"

definition flags_v5_info :: FlagSet where
  "flags_v5_info = [''v'' \<mapsto> \<lparr>Changed = True, Value = ''5''\<rparr>,
                    ''zap-log-level'' \<mapsto> \<lparr>Changed = True, Value = ''info''\<rparr>]"

definition opts_v5_info :: logging_Options where
  "opts_v5_info = \<lparr>LogVerbosity = 5, ZapOptions = \<lparr>Development = True, Level = Some 0\<rparr>,
                   fs = Some flags_v5_info\<rparr>"

text \<open>The flag set after \<^verbatim>\<open>-v=200\<close>.\<close>

definition flags_v200 :: FlagSet where
  "flags_v200 = [''v'' \<mapsto> \<lparr>Changed = True, Value = ''200''\<rparr>,
                 ''zap-log-level'' \<mapsto> \<lparr>Changed = False, Value = []\<rparr>]"

definition opts_v200 :: logging_Options where
  "opts_v200 = \<lparr>LogVerbosity = 200, ZapOptions = \<lparr>Development = True, Level = None\<rparr>,
                fs = Some flags_v200\<rparr>"

text \<open>Server options with the given ports and verbosity, the rest as the defaults.\<close>

definition with_ports :: "go_int \<Rightarrow> go_int \<Rightarrow> go_int \<Rightarrow> go_int \<Rightarrow> unit server_Options" where
  "with_ports g h m v =
     (server_NewOptions v)\<lparr>GRPCPort := g, GRPCHealthPort := h, MetricsPort := m\<rparr>"

section \<open>Evaluation of the formatting verbs\<close>

lemma decimal_0: "decimal 0 = ''0''"
  by (simp add: decimal.simps [of 0])

lemma decimal_1: "decimal (Suc 0) = ''1''"
  by (simp add: decimal.simps [of "Suc 0"])

lemma decimal_numeral:
  "decimal (numeral k) =
     (if (numeral k :: nat) < 10 then [digit (numeral k)]
      else decimal (numeral k div 10) @ [digit (numeral k mod 10)])"
  by (rule decimal.simps)

lemmas decimal_eval = decimal_0 decimal_1 decimal_numeral

section \<open>The conversion to \<^verbatim>\<open>int8\<close>\<close>

lemma int8_of_neg:
  fixes v :: go_int
  shows "sint (ucast (- v) :: go_int8) = signed_take_bit 7 (- sint v)"
proof -
  have "v = word_of_int (sint v)"
    by simp
  then have "- v = word_of_int (- sint v)"
    by simp
  then have "(ucast (- v) :: go_int8) = word_of_int (- sint v)"
    by (simp only: ucast_down_wi is_down len_of_numeral_defs)
  then have "sint (ucast (- v) :: go_int8) = sint (word_of_int (- sint v) :: go_int8)"
    by (rule arg_cong)
  also have "\<dots> = signed_take_bit 7 (- sint v)"
    by (simp only: signed_of_int len_of_numeral_defs) simp
  finally show ?thesis .
qed

lemma int8_of_neg_small:
  fixes v :: go_int
  assumes "- 127 \<le> sint v" and "sint v \<le> 128"
  shows "sint (ucast (- v) :: go_int8) = - sint v"
  using assms by (simp add: int8_of_neg signed_take_bit_int_eq_self)

section \<open>Logging options: Complete\<close>

lemma logging_Complete_unchanged_flag:
  assumes "fs opts = Some f" and "Lookup f ZapLogLevelFlagName = Some fl" and "\<not> Changed fl"
  shows "logging_Complete opts =
           Inr (opts\<lparr>ZapOptions := (ZapOptions opts)\<lparr>Level := Some (ucast (- LogVerbosity opts))\<rparr>,
                     fs := Some (f(ZapLogLevelFlagName \<mapsto> fl\<lparr>Changed := True\<rparr>))\<rparr>, None)"
  using assms by (simp add: logging_Complete_def)

text \<open>
  Where \<open>-1\<close> times the verbosity fits an \<^verbatim>\<open>int8\<close>, that is for a verbosity in
  \<open>[-127, 128]\<close>, \<^verbatim>\<open>Complete\<close> on an unset \<^verbatim>\<open>zap-log-level\<close> flag returns no error, sets
  the backend level to \<open>-1\<close> times the verbosity, marks the flag as changed and keeps the
  verbosity.
\<close>

lemma logging_Complete_level_in_range:
  assumes "fs opts = Some f"
    and "Lookup f ZapLogLevelFlagName = Some fl"
    and "\<not> Changed fl"
    and "- 127 \<le> sint (LogVerbosity opts)" and "sint (LogVerbosity opts) \<le> 128"
  shows "case logging_Complete opts of
           Inr (opts', None) \<Rightarrow>
             map_option sint (Level (ZapOptions opts')) = Some (-1 * sint (LogVerbosity opts))
             \<and> map_option Changed (Option.bind (fs opts') (\<lambda>f'. Lookup f' ZapLogLevelFlagName)) = Some True
             \<and> LogVerbosity opts' = LogVerbosity opts
         | _ \<Rightarrow> False"
  using assms(4,5)
  by (simp add: logging_Complete_unchanged_flag [OF assms(1-3)] Lookup_def int8_of_neg_small)

text \<open>At verbosity 3 the backend level is \<open>-3\<close> and the flag is marked.\<close>

lemma logging_Complete_level_at_3:
  "case logging_Complete opts_v3 of
     Inr (opts', None) \<Rightarrow>
       map_option sint (Level (ZapOptions opts')) = Some (- 3)
       \<and> map_option Changed (Option.bind (fs opts') (\<lambda>f'. Lookup f' ZapLogLevelFlagName)) = Some True
   | _ \<Rightarrow> False"
proof -
  have f: "fs opts_v3 = Some flags_v3"
    by (simp add: opts_v3_def)
  have l: "Lookup flags_v3 ZapLogLevelFlagName = Some \<lparr>Changed = False, Value = []\<rparr>"
    by (simp add: Lookup_def flags_v3_def ZapLogLevelFlagName_def)
  have c: "\<not> Changed \<lparr>Changed = False, Value = []\<rparr>"
    by simp
  have v: "LogVerbosity opts_v3 = 3"
    by (simp add: opts_v3_def)
  show ?thesis
    using logging_Complete_level_in_range [OF f l c]
    by (auto simp add: v split: sum.splits prod.splits option.splits)
qed

text \<open>
  Claim C1, at the input where the code departs from it. After \<^verbatim>\<open>-v=200\<close>, with the
  \<^verbatim>\<open>zap-log-level\<close> flag not set by the user, \<^verbatim>\<open>Validate\<close> accepts the verbosity and
  \<^verbatim>\<open>Complete\<close> returns no error and marks the flag as changed, but the backend level it
  sets is 56 and not \<open>-200\<close>: \<^verbatim>\<open>int8(lvl)\<close> keeps the low eight bits of \<open>-200\<close>.
\<close>

theorem logging_Complete_verbosity_200:
  "fs opts_v200 = Some flags_v200
   \<and> Lookup flags_v200 ZapLogLevelFlagName = Some \<lparr>Changed = False, Value = []\<rparr>
   \<and> snd (logging_Validate opts_v200) = None
   \<and> logging_Complete opts_v200 =
       Inr (opts_v200\<lparr>ZapOptions := \<lparr>Development = True, Level = Some 56\<rparr>,
                      fs := Some (flags_v200(ZapLogLevelFlagName \<mapsto> \<lparr>Changed = True, Value = []\<rparr>))\<rparr>,
            None)
   \<and> sint (56 :: go_int8) = 56
   \<and> -1 * sint (LogVerbosity opts_v200) = - 200"
proof -
  have f: "fs opts_v200 = Some flags_v200"
    by (simp add: opts_v200_def)
  have l: "Lookup flags_v200 ZapLogLevelFlagName = Some \<lparr>Changed = False, Value = []\<rparr>"
    by (simp add: Lookup_def flags_v200_def ZapLogLevelFlagName_def)
  have c: "\<not> Changed \<lparr>Changed = False, Value = []\<rparr>"
    by simp
  have v: "snd (logging_Validate opts_v200) = None"
    by (simp add: logging_Validate_def opts_v200_def)
  show ?thesis
    using f l v by (simp add: logging_Complete_unchanged_flag [OF f l c]) (simp add: opts_v200_def)
qed

text \<open>
  Claim C2. When the user has set the \<^verbatim>\<open>zap-log-level\<close> flag of the flag set the options
  are bound to, \<^verbatim>\<open>Complete\<close> returns no error and leaves the options as they are, the
  backend level among them, whatever the verbosity.
\<close>

theorem logging_Complete_explicit_level:
  assumes "fs opts = Some f"
    and "Lookup f ZapLogLevelFlagName = Some fl"
    and "Changed fl"
  shows "logging_Complete opts = Inr (opts, None)"
  using assms by (simp add: logging_Complete_def)

text \<open>With \<^verbatim>\<open>-v=5 --zap-log-level=info\<close> the level stays at \<^verbatim>\<open>info\<close>.\<close>

theorem logging_Complete_explicit_level_witness:
  "fs opts_v5_info = Some flags_v5_info
   \<and> Lookup flags_v5_info ZapLogLevelFlagName = Some \<lparr>Changed = True, Value = ''info''\<rparr>
   \<and> logging_Complete opts_v5_info = Inr (opts_v5_info, None)
   \<and> LogVerbosity opts_v5_info = 5
   \<and> Level (ZapOptions opts_v5_info) = Some 0"
proof -
  have f: "fs opts_v5_info = Some flags_v5_info"
    by (simp add: opts_v5_info_def)
  have l: "Lookup flags_v5_info ZapLogLevelFlagName = Some \<lparr>Changed = True, Value = ''info''\<rparr>"
    by (simp add: Lookup_def flags_v5_info_def ZapLogLevelFlagName_def)
  have c: "Changed \<lparr>Changed = True, Value = ''info''\<rparr>"
    by simp
  show ?thesis
    using logging_Complete_explicit_level [OF f l c] f l
    by (simp add: opts_v5_info_def)
qed

text \<open>
  Claim C9. Once \<^verbatim>\<open>AddFlags\<close> has stored a flag set in the options (\<^verbatim>\<open>fs\<close> is not
  nil), \<^verbatim>\<open>Complete\<close> of the logging options returns, and returns the nil error; so does
  \<^verbatim>\<open>Complete\<close> of every server options that embed them.
\<close>

theorem Complete_returns_nil:
  assumes "fs lopts \<noteq> None"
  shows "(\<exists>lopts'. logging_Complete lopts = Inr (lopts', None))
         \<and> (\<forall>sopts :: 'j server_Options. Options sopts = lopts \<longrightarrow>
               (\<exists>sopts'. server_Complete sopts = Inr (sopts', None)))"
  using assms
  by (auto simp add: logging_Complete_def server_Complete_def Let_def split: option.splits)

text \<open>The options after \<^verbatim>\<open>-v=3\<close>, alone and embedded in server options.\<close>

theorem Complete_returns_nil_witness:
  "fs opts_v3 \<noteq> None
   \<and> (\<exists>lopts'. logging_Complete opts_v3 = Inr (lopts', None))
   \<and> (\<exists>sopts'. server_Complete ((with_ports 9004 9005 9090 2)\<lparr>Options := opts_v3\<rparr>) = Inr (sopts', None))"
proof -
  have f: "fs opts_v3 \<noteq> None"
    by (simp add: opts_v3_def)
  show ?thesis
    using Complete_returns_nil [OF f, where ?'j = unit] f by simp
qed

section \<open>Server options: Validate\<close>

lemma check_ranges_in_range:
  assumes "1 \<le> sint g" "sint g \<le> 65535" "1 \<le> sint h" "sint h \<le> 65535"
    and "1 \<le> sint m" "sint m \<le> 65535"
  shows "check_ranges [(''grpc-port'', g), (''grpc-health-port'', h), (''metrics-port'', m)] = None"
  using assms by simp

lemma length_port_map:
  "length (port_map opts) < 3 \<longleftrightarrow>
     GRPCPort opts = GRPCHealthPort opts \<or> GRPCPort opts = MetricsPort opts
     \<or> GRPCHealthPort opts = MetricsPort opts"
  by (auto simp add: port_map_def)

lemma server_Validate_ports_pass:
  assumes "1 \<le> sint (GRPCPort opts)" "sint (GRPCPort opts) \<le> 65535"
    and "1 \<le> sint (GRPCHealthPort opts)" "sint (GRPCHealthPort opts) \<le> 65535"
    and "1 \<le> sint (MetricsPort opts)" "sint (MetricsPort opts) \<le> 65535"
    and "GRPCPort opts \<noteq> GRPCHealthPort opts" "GRPCPort opts \<noteq> MetricsPort opts"
    and "GRPCHealthPort opts \<noteq> MetricsPort opts"
  shows "snd (server_Validate opts) = snd (logging_Validate (Options opts))"
proof -
  have r: "check_ranges [(''grpc-port'', GRPCPort opts),
                         (''grpc-health-port'', GRPCHealthPort opts),
                         (''metrics-port'', MetricsPort opts)] = None"
    using assms(1-6) by (rule check_ranges_in_range)
  have l: "\<not> length (port_map opts) < 3"
    using assms(7-9) by (simp add: length_port_map)
  show ?thesis
    by (simp add: server_Validate_def r l split: prod.splits option.splits del: check_ranges.simps)
qed

text \<open>
  Claim C3. For server options whose three ports all lie in \<open>[1, 65535]\<close>: when two of
  the ports are equal, \<^verbatim>\<open>Validate\<close> fails with the port-conflict error, whose message
  carries the three port values; when the three are pairwise distinct and the verbosity is
  not negative, \<^verbatim>\<open>Validate\<close> succeeds.
\<close>

theorem server_Validate_collision:
  assumes "1 \<le> sint (GRPCPort opts)" "sint (GRPCPort opts) \<le> 65535"
    and "1 \<le> sint (GRPCHealthPort opts)" "sint (GRPCHealthPort opts) \<le> 65535"
    and "1 \<le> sint (MetricsPort opts)" "sint (MetricsPort opts) \<le> 65535"
  shows "(GRPCPort opts = GRPCHealthPort opts \<or> GRPCPort opts = MetricsPort opts
            \<or> GRPCHealthPort opts = MetricsPort opts \<longrightarrow>
          snd (server_Validate opts) =
            Some (Errorf (''port conflict: grpc-port ('' @ fmt_d (GRPCPort opts)
                          @ ''), grpc-health-port ('' @ fmt_d (GRPCHealthPort opts)
                          @ ''), and metrics-port ('' @ fmt_d (MetricsPort opts)
                          @ '') must all be different'')))
         \<and> (GRPCPort opts \<noteq> GRPCHealthPort opts \<and> GRPCPort opts \<noteq> MetricsPort opts
              \<and> GRPCHealthPort opts \<noteq> MetricsPort opts
              \<and> 0 \<le> sint (LogVerbosity (Options opts)) \<longrightarrow>
            snd (server_Validate opts) = None)"
proof (intro conjI impI)
  have r: "check_ranges [(''grpc-port'', GRPCPort opts),
                         (''grpc-health-port'', GRPCHealthPort opts),
                         (''metrics-port'', MetricsPort opts)] = None"
    using assms by (rule check_ranges_in_range)
  {
    assume "GRPCPort opts = GRPCHealthPort opts \<or> GRPCPort opts = MetricsPort opts
            \<or> GRPCHealthPort opts = MetricsPort opts"
    then have "length (port_map opts) < 3"
      by (simp add: length_port_map)
    then show "snd (server_Validate opts) =
            Some (Errorf (''port conflict: grpc-port ('' @ fmt_d (GRPCPort opts)
                          @ ''), grpc-health-port ('' @ fmt_d (GRPCHealthPort opts)
                          @ ''), and metrics-port ('' @ fmt_d (MetricsPort opts)
                          @ '') must all be different''))"
      by (simp add: server_Validate_def r del: check_ranges.simps)
  }
  {
    assume d: "GRPCPort opts \<noteq> GRPCHealthPort opts \<and> GRPCPort opts \<noteq> MetricsPort opts
              \<and> GRPCHealthPort opts \<noteq> MetricsPort opts
              \<and> 0 \<le> sint (LogVerbosity (Options opts))"
    then have "snd (server_Validate opts) = snd (logging_Validate (Options opts))"
      using assms by (intro server_Validate_ports_pass) simp_all
    with d show "snd (server_Validate opts) = None"
      by (simp add: logging_Validate_def)
  }
qed

lemma fmt_d_9004: "fmt_d 9004 = ''9004''"
  by (simp add: fmt_d_def decimal_eval)

lemma fmt_d_9090: "fmt_d 9090 = ''9090''"
  by (simp add: fmt_d_def decimal_eval)

lemma with_ports_simps:
  "GRPCPort (with_ports g h m v) = g"
  "GRPCHealthPort (with_ports g h m v) = h"
  "MetricsPort (with_ports g h m v) = m"
  "LogVerbosity (Options (with_ports g h m v)) = v"
  by (simp_all add: with_ports_def server_NewOptions_def logging_NewOptions_def)

text \<open>Ports 9004, 9005, 9090 pass; ports 9004, 9004, 9090 collide.\<close>

theorem server_Validate_collision_witness:
  "snd (server_Validate (with_ports 9004 9005 9090 2)) = None
   \<and> snd (server_Validate (with_ports 9004 9004 9090 2)) =
       Some (Errorf ''port conflict: grpc-port (9004), grpc-health-port (9004), and metrics-port (9090) must all be different'')"
  using server_Validate_collision [of "with_ports 9004 9005 9090 2"]
    server_Validate_collision [of "with_ports 9004 9004 9090 2"]
  by (simp add: with_ports_simps fmt_d_9004 fmt_d_9090)

text \<open>
  Claim C4. When one of the three ports lies outside \<open>[1, 65535]\<close>, \<^verbatim>\<open>Validate\<close> fails
  with the range error of the first such port in the order \<^verbatim>\<open>grpc-port\<close>,
  \<^verbatim>\<open>grpc-health-port\<close>, \<^verbatim>\<open>metrics-port\<close>; the message carries the flag's name and the
  port's value. The result is this error whatever the other ports and the verbosity are:
  the collision check and the logging check are not reached.
\<close>

theorem server_Validate_range:
  assumes "sint (GRPCPort opts) < 1 \<or> 65535 < sint (GRPCPort opts)
           \<or> sint (GRPCHealthPort opts) < 1 \<or> 65535 < sint (GRPCHealthPort opts)
           \<or> sint (MetricsPort opts) < 1 \<or> 65535 < sint (MetricsPort opts)"
  shows "snd (server_Validate opts) =
           Some (Errorf
             (if sint (GRPCPort opts) < 1 \<or> 65535 < sint (GRPCPort opts) then
                ''invalid value '' @ fmt_d (GRPCPort opts) @ '' for flag '' @ fmt_q ''grpc-port''
                @ '': must be between 1 and 65535''
              else if sint (GRPCHealthPort opts) < 1 \<or> 65535 < sint (GRPCHealthPort opts) then
                ''invalid value '' @ fmt_d (GRPCHealthPort opts) @ '' for flag ''
                @ fmt_q ''grpc-health-port'' @ '': must be between 1 and 65535''
              else
                ''invalid value '' @ fmt_d (MetricsPort opts) @ '' for flag ''
                @ fmt_q ''metrics-port'' @ '': must be between 1 and 65535''))"
  using assms by (auto simp add: server_Validate_def)

lemma fmt_d_0: "fmt_d 0 = ''0''"
  by (simp add: fmt_d_def decimal_eval)

lemma fmt_d_65536: "fmt_d 65536 = ''65536''"
  by (simp add: fmt_d_def decimal_eval)

text \<open>
  Port 0 and port 65536, each together with colliding ports and a negative verbosity.
\<close>

theorem server_Validate_range_witness:
  "snd (server_Validate (with_ports 0 0 9090 (- 1))) =
     Some (Errorf (''invalid value 0 for flag '' @ fmt_q ''grpc-port''
                   @ '': must be between 1 and 65535''))
   \<and> snd (server_Validate (with_ports 9004 9004 65536 (- 1))) =
     Some (Errorf (''invalid value 65536 for flag '' @ fmt_q ''metrics-port''
                   @ '': must be between 1 and 65535''))"
  using server_Validate_range [of "with_ports 0 0 9090 (- 1)"]
    server_Validate_range [of "with_ports 9004 9004 65536 (- 1)"]
  by (simp add: with_ports_simps fmt_d_0 fmt_d_65536)

text \<open>
  Claim C7. \<^verbatim>\<open>Validate\<close> of the logging options returns \<^verbatim>\<open>ErrInvalidLogVerbosity\<close>
  exactly when the verbosity is negative, and nil exactly when it is not; server options
  whose ports pass the range check and the collision check get from \<^verbatim>\<open>Validate\<close> the
  very result of the logging options' \<^verbatim>\<open>Validate\<close>.
\<close>

theorem Validate_verbosity:
  "(snd (logging_Validate lopts) = Some ErrInvalidLogVerbosity \<longleftrightarrow> sint (LogVerbosity lopts) < 0)
   \<and> (snd (logging_Validate lopts) = None \<longleftrightarrow> 0 \<le> sint (LogVerbosity lopts))
   \<and> (\<forall>sopts :: 'j server_Options.
         Options sopts = lopts
         \<and> 1 \<le> sint (GRPCPort sopts) \<and> sint (GRPCPort sopts) \<le> 65535
         \<and> 1 \<le> sint (GRPCHealthPort sopts) \<and> sint (GRPCHealthPort sopts) \<le> 65535
         \<and> 1 \<le> sint (MetricsPort sopts) \<and> sint (MetricsPort sopts) \<le> 65535
         \<and> GRPCPort sopts \<noteq> GRPCHealthPort sopts \<and> GRPCPort sopts \<noteq> MetricsPort sopts
         \<and> GRPCHealthPort sopts \<noteq> MetricsPort sopts \<longrightarrow>
         snd (server_Validate sopts) = snd (logging_Validate lopts))"
proof (intro conjI allI impI)
  show "snd (logging_Validate lopts) = Some ErrInvalidLogVerbosity \<longleftrightarrow> sint (LogVerbosity lopts) < 0"
    by (simp add: logging_Validate_def)
  show "snd (logging_Validate lopts) = None \<longleftrightarrow> 0 \<le> sint (LogVerbosity lopts)"
    by (auto simp add: logging_Validate_def)
next
  fix sopts :: "'j server_Options"
  assume a: "Options sopts = lopts
         \<and> 1 \<le> sint (GRPCPort sopts) \<and> sint (GRPCPort sopts) \<le> 65535
         \<and> 1 \<le> sint (GRPCHealthPort sopts) \<and> sint (GRPCHealthPort sopts) \<le> 65535
         \<and> 1 \<le> sint (MetricsPort sopts) \<and> sint (MetricsPort sopts) \<le> 65535
         \<and> GRPCPort sopts \<noteq> GRPCHealthPort sopts \<and> GRPCPort sopts \<noteq> MetricsPort sopts
         \<and> GRPCHealthPort sopts \<noteq> MetricsPort sopts"
  then have "snd (server_Validate sopts) = snd (logging_Validate (Options sopts))"
    by (intro server_Validate_ports_pass) simp_all
  with a show "snd (server_Validate sopts) = snd (logging_Validate lopts)"
    by simp
qed

text \<open>Verbosity \<open>-1\<close> and verbosity 0; the default ports with verbosity \<open>-1\<close>.\<close>

theorem Validate_verbosity_witness:
  "snd (logging_Validate (logging_NewOptions (- 1))) = Some ErrInvalidLogVerbosity
   \<and> snd (logging_Validate (logging_NewOptions 0)) = None
   \<and> snd (server_Validate (with_ports 9004 9005 9090 (- 1))) = Some ErrInvalidLogVerbosity"
proof -
  have n: "LogVerbosity (logging_NewOptions v) = v" for v
    by (simp add: logging_NewOptions_def)
  have o: "Options (with_ports g h m v) = logging_NewOptions v" for g h m v
    by (simp add: with_ports_def server_NewOptions_def)
  show ?thesis
    using Validate_verbosity [of "logging_NewOptions (- 1)", where ?'j = unit]
      Validate_verbosity [of "logging_NewOptions 0", where ?'j = unit]
    by (simp add: n o with_ports_simps del: with_ports_simps(4))
qed

text \<open>
  Claim C8. \<^verbatim>\<open>NewOptions\<close> of the server has gRPC port 9004, gRPC health port 9005,
  metrics port 9090, streaming off, secure serving, pprof and metrics-endpoint
  authentication on, and embeds the logging options of the logging package's
  \<^verbatim>\<open>NewOptions\<close>: verbosity \<^verbatim>\<open>DEFAULT\<close>, backend in development mode.
\<close>

theorem NewOptions_defaults:
  "GRPCPort (server_NewOptions DEFAULT :: 'j server_Options) = 9004
   \<and> GRPCHealthPort (server_NewOptions DEFAULT :: 'j server_Options) = 9005
   \<and> MetricsPort (server_NewOptions DEFAULT :: 'j server_Options) = 9090
   \<and> \<not> Streaming (server_NewOptions DEFAULT :: 'j server_Options)
   \<and> SecureServing (server_NewOptions DEFAULT :: 'j server_Options)
   \<and> EnablePprof (server_NewOptions DEFAULT :: 'j server_Options)
   \<and> MetricsEndpointAuth (server_NewOptions DEFAULT :: 'j server_Options)
   \<and> Options (server_NewOptions DEFAULT :: 'j server_Options) = logging_NewOptions DEFAULT
   \<and> LogVerbosity (logging_NewOptions DEFAULT) = DEFAULT
   \<and> Development (ZapOptions (logging_NewOptions DEFAULT))"
  by (simp add: server_NewOptions_def logging_NewOptions_def DefaultGrpcPort_def
      DefaultGrpcHealthPort_def)

text \<open>
  Claim C10. \<^verbatim>\<open>Validate\<close> of the server options and \<^verbatim>\<open>Validate\<close> of the logging
  options leave the options as they were, whatever they return.
\<close>

theorem Validate_frame:
  "fst (server_Validate sopts) = sopts \<and> fst (logging_Validate lopts) = lopts"
  by (simp add: server_Validate_def logging_Validate_def split: option.splits prod.splits)

section \<open>Plugin specifications\<close>

lemma cut_no_colon: "CHR '':'' \<notin> set a \<Longrightarrow> cut_colon a = None"
  by (induction a) auto

lemma cut_first_colon: "CHR '':'' \<notin> set a \<Longrightarrow> cut_colon (a @ CHR '':'' # b) = Some (a, b)"
  by (induction a) auto

text \<open>
  Claim C5. For a type \<open>T\<close> and a name \<open>N\<close>, neither empty nor containing \<open>:\<close>, the
  parser turns \<open>T:N\<close> into type \<open>T\<close>, name \<open>N\<close> and no parameters, and hands the whole
  of \<open>J\<close> in \<open>T:N:J\<close> to the JSON decoder, whatever \<open>:\<close> the text \<open>J\<close> contains: the
  parameters are the decoded \<open>J\<close>.
\<close>

theorem ParsePluginSpec_segments:
  assumes "T \<noteq> []" and "CHR '':'' \<notin> set T"
    and "N \<noteq> []" and "CHR '':'' \<notin> set N"
  shows "ParsePluginSpec decode (T @ '':'' @ N) = Inr \<lparr>Type = T, Name = N, Parameters = None\<rparr>
         \<and> ParsePluginSpec decode (T @ '':'' @ N @ '':'' @ J) =
             (case decode J of
                None \<Rightarrow> Inl (InvalidJSONParameters (T @ '':'' @ N @ '':'' @ J))
              | Some v \<Rightarrow> Inr \<lparr>Type = T, Name = N, Parameters = Some v\<rparr>)"
proof
  have "cut_colon (T @ '':'' @ N) = Some (T, N)"
    using assms(2) by (simp add: cut_first_colon)
  moreover have "cut_colon N = None"
    using assms(4) by (rule cut_no_colon)
  ultimately show "ParsePluginSpec decode (T @ '':'' @ N) = Inr \<lparr>Type = T, Name = N, Parameters = None\<rparr>"
    using assms(1,3) by (simp add: ParsePluginSpec_def)
next
  have "cut_colon (T @ '':'' @ N @ '':'' @ J) = Some (T, N @ '':'' @ J)"
    using assms(2) by (simp add: cut_first_colon)
  moreover have "cut_colon (N @ '':'' @ J) = Some (N, J)"
    using assms(4) by (simp add: cut_first_colon)
  ultimately show "ParsePluginSpec decode (T @ '':'' @ N @ '':'' @ J) =
             (case decode J of
                None \<Rightarrow> Inl (InvalidJSONParameters (T @ '':'' @ N @ '':'' @ J))
              | Some v \<Rightarrow> Inr \<lparr>Type = T, Name = N, Parameters = Some v\<rparr>)"
    using assms(1,3) by (simp add: ParsePluginSpec_def split: option.splits)
qed

text \<open>
  The input \<^verbatim>\<open>plugin:inst:\<close> followed by a JSON object whose one value contains a
  \<open>:\<close>, with a decoder that returns the text it is given.
\<close>

theorem ParsePluginSpec_segments_witness:
  "ParsePluginSpec Some (''plugin:inst:{'' @ fmt_q ''a'' @ '':'' @ fmt_q ''x:y'' @ ''}'') =
     Inr \<lparr>Type = ''plugin'', Name = ''inst'',
          Parameters = Some (''{'' @ fmt_q ''a'' @ '':'' @ fmt_q ''x:y'' @ ''}'')\<rparr>
   \<and> ParsePluginSpec Some ''plugin:inst'' =
     Inr \<lparr>Type = ''plugin'', Name = ''inst'', Parameters = None\<rparr>"
  using ParsePluginSpec_segments [of "''plugin''" "''inst''" Some
      "''{'' @ fmt_q ''a'' @ '':'' @ fmt_q ''x:y'' @ ''}''"]
  by simp


lemma SetAll_all_parse:
  assumes "\<forall>raw \<in> set raws. \<exists>p. ParsePluginSpec decode raw = Inr p"
  shows "SetAll decode specs raws =
           (specs @ map (\<lambda>raw. projr (ParsePluginSpec decode raw)) raws, None)"
  using assms
proof (induction raws arbitrary: specs)
  case Nil
  then show ?case by simp
next
  case (Cons raw raws)
  from Cons.prems obtain p where p: "ParsePluginSpec decode raw = Inr p"
    by auto
  from Cons.prems have "\<forall>raw \<in> set raws. \<exists>p. ParsePluginSpec decode raw = Inr p"
    by simp
  then have "SetAll decode (specs @ [p]) raws =
           ((specs @ [p]) @ map (\<lambda>raw. projr (ParsePluginSpec decode raw)) raws, None)"
    by (rule Cons.IH)
  with p show ?case
    by (simp add: Set_def)
qed

text \<open>
  Claim C6. \<^verbatim>\<open>Set\<close> either appends the one parsed specification at the end of the
  sequence and returns no error, or returns the parse error and the sequence as it was;
  successive calls on the empty collection with inputs that all parse give the parsed
  specifications in the order of the calls.
\<close>

theorem Set_appends_or_fails:
  "(case ParsePluginSpec decode raw of
      Inr p \<Rightarrow> Set decode specs raw = (specs @ [p], None)
    | Inl e \<Rightarrow> Set decode specs raw = (specs, Some e))
   \<and> ((\<forall>r \<in> set raws. \<exists>p. ParsePluginSpec decode r = Inr p) \<longrightarrow>
        SetAll decode [] raws = (map (\<lambda>r. projr (ParsePluginSpec decode r)) raws, None))"
  using SetAll_all_parse [of raws decode "[]"]
  by (simp add: Set_def split: sum.splits)

lemma parse_a_b: "ParsePluginSpec decode ''a:b'' = Inr \<lparr>Type = ''a'', Name = ''b'', Parameters = None\<rparr>"
  by (simp add: ParsePluginSpec_def)

lemma parse_c_d: "ParsePluginSpec decode ''c:d'' = Inr \<lparr>Type = ''c'', Name = ''d'', Parameters = None\<rparr>"
  by (simp add: ParsePluginSpec_def)

lemma parse_a: "ParsePluginSpec decode ''a'' = Inl (MissingName ''a'')"
  by (simp add: ParsePluginSpec_def)

text \<open>
  \<^verbatim>\<open>Set\<close> of \<^verbatim>\<open>a:b\<close> and then of \<^verbatim>\<open>c:d\<close> on the empty collection; a \<^verbatim>\<open>Set\<close>
  that fails.
\<close>

theorem Set_appends_or_fails_witness:
  "SetAll (Some :: string \<Rightarrow> string option) [] [''a:b'', ''c:d''] =
     ([\<lparr>Type = ''a'', Name = ''b'', Parameters = None\<rparr>,
       \<lparr>Type = ''c'', Name = ''d'', Parameters = None\<rparr>], None)
   \<and> Set (Some :: string \<Rightarrow> string option) [\<lparr>Type = ''a'', Name = ''b'', Parameters = None\<rparr>] ''a'' =
     ([\<lparr>Type = ''a'', Name = ''b'', Parameters = None\<rparr>], Some (MissingName ''a''))"
  using Set_appends_or_fails [where decode = "Some :: string \<Rightarrow> string option"
      and raw = "''a''" and specs = "[\<lparr>Type = ''a'', Name = ''b'', Parameters = None\<rparr>]"
      and raws = "[''a:b'', ''c:d'']"]
  by (simp add: parse_a_b parse_c_d parse_a)

end
